theory Spec2Isabelle
  imports Complex_Main
begin

section \<open>Python floats\<close>

text \<open>
  The rate, the delay and the sleep durations are Python floats. The model keeps the
  special values of a float apart from the finite ones, because the comparisons of the
  source (\<^verbatim>\<open>x > 0\<close>, \<^verbatim>\<open>x <= 0\<close>, \<^verbatim>\<open>elapsed < delay\<close>) are all false on NaN. A finite
  float is an exact rational: neither the rounding of binary64 nor its range is
  modelled, so a finite value stands for the float next to it, and a value beyond the
  range of a float stays finite. The numbers evaluated below (4, 1, 0, 1/4) are floats
  exactly.
\<close>

datatype pyfloat = Fin rat | PInf | NInf | NaN

text \<open>\<^verbatim>\<open>x > 0\<close>\<close>

fun gt_zero :: "pyfloat \<Rightarrow> bool" where
  "gt_zero (Fin r) = (0 < r)"
| "gt_zero PInf = True"
| "gt_zero NInf = False"
| "gt_zero NaN = False"

text \<open>\<^verbatim>\<open>x <= 0\<close>\<close>

fun le_zero :: "pyfloat \<Rightarrow> bool" where
  "le_zero (Fin r) = (r \<le> 0)"
| "le_zero PInf = False"
| "le_zero NInf = True"
| "le_zero NaN = False"

text \<open>\<^verbatim>\<open>elapsed < delay\<close>, where \<^verbatim>\<open>elapsed\<close> is a finite sum of 0.05s.\<close>

fun elapsed_lt :: "rat \<Rightarrow> pyfloat \<Rightarrow> bool" where
  "elapsed_lt el (Fin d) = (el < d)"
| "elapsed_lt el PInf = True"
| "elapsed_lt el NInf = False"
| "elapsed_lt el NaN = False"

text \<open>\<^verbatim>\<open>1.0 / x\<close>; the source evaluates it only where \<^verbatim>\<open>x > 0\<close>.\<close>

fun one_over :: "pyfloat \<Rightarrow> pyfloat" where
  "one_over (Fin r) = Fin (1 / r)"
| "one_over PInf = Fin 0"
| "one_over NInf = Fin 0"
| "one_over NaN = NaN"

text \<open>
  \<^verbatim>\<open>time.sleep(secs)\<close> raises \<^verbatim>\<open>ValueError\<close> on a negative argument and on NaN, and
  \<^verbatim>\<open>OverflowError\<close> when the argument in nanoseconds does not fit 64 bits.
\<close>

fun sleep_raises :: "pyfloat \<Rightarrow> bool" where
  "sleep_raises (Fin secs) = (secs < 0 \<or> 2 ^ 63 \<le> secs * 10 ^ 9)"
| "sleep_raises PInf = True"
| "sleep_raises NInf = True"
| "sleep_raises NaN = True"

text \<open>\<^verbatim>\<open>interval = 1.0 / clicks_per_sec if clicks_per_sec > 0 else 0.1\<close>\<close>

definition interval_of :: "pyfloat \<Rightarrow> pyfloat" where
  "interval_of clicks_per_sec =
     (if gt_zero clicks_per_sec then one_over clicks_per_sec else Fin (1 / 10))"


section \<open>ClickerEngine\<close>

text \<open>
  The body of \<^verbatim>\<open>click_loop\<close> runs on its own thread, so it is cut into atomic steps at
  the places where it reads the stop event, sleeps or clicks. A program counter says
  where a worker stands; the local variables \<^verbatim>\<open>elapsed\<close> and \<^verbatim>\<open>interval\<close> live in it.
\<close>

datatype pc =
    Entry                 \<comment> \<open>before \<^verbatim>\<open>if delay > 0\<close>\<close>
  | DelayTest rat         \<comment> \<open>at \<^verbatim>\<open>while elapsed < delay and not stop\<close>\<close>
  | DelaySleep rat        \<comment> \<open>at \<^verbatim>\<open>time.sleep(0.05); elapsed += 0.05\<close>\<close>
  | SetInterval           \<comment> \<open>at \<^verbatim>\<open>interval = ...\<close>\<close>
  | LoopTest pyfloat      \<comment> \<open>at \<^verbatim>\<open>while not stop\<close>\<close>
  | DoClick pyfloat       \<comment> \<open>at the click, the count and the callback\<close>
  | DoSleep pyfloat       \<comment> \<open>at \<^verbatim>\<open>time.sleep(interval)\<close>\<close>
  | Exit                  \<comment> \<open>at \<^verbatim>\<open>self.is_clicking = False\<close>\<close>
  | Finished              \<comment> \<open>the thread has returned\<close>
  | Died                  \<comment> \<open>the thread has ended with an exception\<close>

record worker =
  w_clicks_per_sec :: pyfloat
  w_delay :: pyfloat
  w_pc :: pc

type_synonym callback = string

text \<open>What the program does to the outside: clicks, sleeps and callback calls.\<close>

datatype event =
    MouseClick nat          \<comment> \<open>worker \<open>i\<close> sent a left click\<close>
  | Slept nat pyfloat       \<comment> \<open>worker \<open>i\<close> called \<^verbatim>\<open>time.sleep\<close>\<close>
  | Notified callback int   \<comment> \<open>the click callback was called with the count\<close>

text \<open>
  The fields of \<^verbatim>\<open>ClickerEngine\<close>, the threads it has spawned (a thread that was
  replaced in \<^verbatim>\<open>click_thread\<close> keeps running) and the events so far. The two
  controllers only send input to the operating system; \<open>events\<close> records it.
\<close>

record engine =
  is_clicking :: bool
  click_thread :: "nat option"
  stop_event :: bool
  click_count :: int
  on_click_callback :: "callback option"
  threads :: "worker list"
  events :: "event list"

definition init :: engine where
  "init = \<lparr> is_clicking = False, click_thread = None, stop_event = False,
            click_count = 0, on_click_callback = None, threads = [], events = [] \<rparr>"

definition set_click_callback :: "callback \<Rightarrow> engine \<Rightarrow> engine" where
  "set_click_callback cb e = e\<lparr> on_click_callback := Some cb \<rparr>"

definition notify :: "engine \<Rightarrow> engine" where
  "notify e = (case on_click_callback e of
                 None \<Rightarrow> e
               | Some cb \<Rightarrow> e\<lparr> events := events e @ [Notified cb (click_count e)] \<rparr>)"

definition reset_click_count :: "engine \<Rightarrow> engine" where
  "reset_click_count e = notify (e\<lparr> click_count := 0 \<rparr>)"

definition start_clicking :: "pyfloat \<Rightarrow> pyfloat \<Rightarrow> engine \<Rightarrow> engine" where
  "start_clicking clicks_per_sec delay e =
     (if is_clicking e then e
      else e\<lparr> is_clicking := True,
              stop_event := False,
              click_thread := Some (length (threads e)),
              threads := threads e @
                [\<lparr> w_clicks_per_sec = clicks_per_sec, w_delay = delay, w_pc = Entry \<rparr>] \<rparr>)"

definition stop_clicking :: "engine \<Rightarrow> engine" where
  "stop_clicking e = e\<lparr> stop_event := True, is_clicking := False \<rparr>"

definition set_pc :: "nat \<Rightarrow> pc \<Rightarrow> engine \<Rightarrow> engine" where
  "set_pc i p e = e\<lparr> threads := (threads e)[i := (threads e ! i)\<lparr> w_pc := p \<rparr>] \<rparr>"

definition emit :: "event \<Rightarrow> engine \<Rightarrow> engine" where
  "emit ev e = e\<lparr> events := events e @ [ev] \<rparr>"

text \<open>One atomic step of worker \<open>i\<close> through \<^verbatim>\<open>click_loop\<close>.\<close>

definition click_loop_step :: "nat \<Rightarrow> engine \<Rightarrow> engine" where
  "click_loop_step i e =
     (if length (threads e) \<le> i then e
      else let w = threads e ! i in
        case w_pc w of
          Entry \<Rightarrow>
            set_pc i (if gt_zero (w_delay w) then DelayTest 0 else SetInterval) e
        | DelayTest elapsed \<Rightarrow>
            set_pc i (if elapsed_lt elapsed (w_delay w) \<and> \<not> stop_event e
                      then DelaySleep elapsed else SetInterval) e
        | DelaySleep elapsed \<Rightarrow>
            set_pc i (DelayTest (elapsed + 1 / 20)) (emit (Slept i (Fin (1 / 20))) e)
        | SetInterval \<Rightarrow>
            set_pc i (LoopTest (interval_of (w_clicks_per_sec w))) e
        | LoopTest interval \<Rightarrow>
            set_pc i (if \<not> stop_event e then DoClick interval else Exit) e
        | DoClick interval \<Rightarrow>
            set_pc i (DoSleep interval)
              (notify ((emit (MouseClick i) e)\<lparr> click_count := click_count e + 1 \<rparr>))
        | DoSleep interval \<Rightarrow>
            (if sleep_raises interval then set_pc i Died e
             else set_pc i (LoopTest interval) (emit (Slept i interval) e))
        | Exit \<Rightarrow>
            set_pc i Finished (e\<lparr> is_clicking := False \<rparr>)
        | Finished \<Rightarrow> e
        | Died \<Rightarrow> e)"

text \<open>
  The engine together with its threads is a labelled transition system: a method call
  from the GUI thread, or one step of one worker.
\<close>

datatype action =
    SetClickCallback callback
  | ResetClickCount
  | StartClicking pyfloat pyfloat
  | StopClicking
  | WorkerStep nat

fun exec :: "action \<Rightarrow> engine \<Rightarrow> engine" where
  "exec (SetClickCallback cb) e = set_click_callback cb e"
| "exec ResetClickCount e = reset_click_count e"
| "exec (StartClicking clicks_per_sec delay) e = start_clicking clicks_per_sec delay e"
| "exec StopClicking e = stop_clicking e"
| "exec (WorkerStep i) e = click_loop_step i e"

fun run :: "action list \<Rightarrow> engine \<Rightarrow> engine" where
  "run [] e = e"
| "run (a # as) e = run as (exec a e)"



section \<open>Strings\<close>

text \<open>
  Key names are ASCII here. \<^verbatim>\<open>str.lower\<close> and \<^verbatim>\<open>str.upper\<close> change the 26 letters
  and leave every other character alone. Names with letters outside ASCII, where
  Python may change the length of a string (the sharp s becomes SS), are outside the
  model.
\<close>

definition lower_char :: "char \<Rightarrow> char" where
  "lower_char c =
     (case map_of (zip ''ABCDEFGHIJKLMNOPQRSTUVWXYZ'' ''abcdefghijklmnopqrstuvwxyz'') c of
        None \<Rightarrow> c
      | Some d \<Rightarrow> d)"

definition upper_char :: "char \<Rightarrow> char" where
  "upper_char c =
     (case map_of (zip ''abcdefghijklmnopqrstuvwxyz'' ''ABCDEFGHIJKLMNOPQRSTUVWXYZ'') c of
        None \<Rightarrow> c
      | Some d \<Rightarrow> d)"

definition lower :: "string \<Rightarrow> string" where
  "lower s = map lower_char s"

definition upper :: "string \<Rightarrow> string" where
  "upper s = map upper_char s"

definition is_digit :: "char \<Rightarrow> bool" where
  "is_digit c = (c \<in> set ''0123456789'')"

definition digit_value :: "char \<Rightarrow> nat" where
  "digit_value c = of_char c - 48"

text \<open>The white space that \<^verbatim>\<open>float\<close> strips, within ASCII.\<close>

definition is_space :: "char \<Rightarrow> bool" where
  "is_space c = (let n = of_char c :: nat in (9 \<le> n \<and> n \<le> 13) \<or> n = 32)"

definition strip :: "string \<Rightarrow> string" where
  "strip s = rev (dropWhile is_space (rev (dropWhile is_space s)))"

text \<open>\<^verbatim>\<open>str(n)\<close> for an integer, used by the f-string \<^verbatim>\<open>f"VK_{key.vk}"\<close>.\<close>

fun str_nat :: "nat \<Rightarrow> string" where
  "str_nat n = (if n < 10 then [''0123456789'' ! n]
                else str_nat (n div 10) @ [''0123456789'' ! (n mod 10)])"

declare str_nat.simps [simp del]

definition str_int :: "int \<Rightarrow> string" where
  "str_int k = (if k < 0 then CHR ''-'' # str_nat (nat (- k)) else str_nat (nat k))"


section \<open>The builtin float()\<close>

text \<open>
  \<^verbatim>\<open>float(value)\<close> on a string, after the grammar of the Python reference: white space
  is stripped, then comes an optional sign and either \<^verbatim>\<open>inf\<close>, \<^verbatim>\<open>infinity\<close> or \<^verbatim>\<open>nan\<close>
  in any case, or a decimal number with an optional fraction and exponent, where single
  underscores may separate digits. \<open>None\<close> stands for \<^verbatim>\<open>ValueError\<close>, the only exception
  \<^verbatim>\<open>float\<close> raises on a string. The result is the exact decimal value: where Python
  rounds, overflows to an infinity (\<^verbatim>\<open>1e400\<close>) or underflows to zero (\<^verbatim>\<open>1e-400\<close>), the
  model keeps the number. White space and digits outside ASCII are outside the model.
\<close>

fun digitpart :: "string \<Rightarrow> bool" where
  "digitpart [] = False"
| "digitpart [c] = is_digit c"
| "digitpart (c # d # cs) =
     (is_digit c \<and> (if d = CHR ''_'' then digitpart cs else digitpart (d # cs)))"

definition digits_value :: "string \<Rightarrow> nat" where
  "digits_value s = foldl (\<lambda>a c. 10 * a + digit_value c) 0 (filter is_digit s)"

definition split_sign :: "string \<Rightarrow> bool \<times> string" where
  "split_sign s = (case s of
       [] \<Rightarrow> (False, [])
     | c # cs \<Rightarrow> if c = CHR ''-'' then (True, cs)
                 else if c = CHR ''+'' then (False, cs) else (False, s))"

definition parse_exponent :: "string \<Rightarrow> int option" where
  "parse_exponent s =
     (let (neg, ds) = split_sign s in
      if digitpart ds then Some (if neg then - int (digits_value ds) else int (digits_value ds))
      else None)"

definition parse_mantissa :: "string \<Rightarrow> (nat \<times> nat) option" where
  "parse_mantissa s =
     (let ip = takeWhile (\<lambda>c. c \<noteq> CHR ''.'') s;
          rest = dropWhile (\<lambda>c. c \<noteq> CHR ''.'') s
      in if rest = [] then (if digitpart ip then Some (digits_value ip, 0) else None)
         else let fp = tl rest in
           if (digitpart fp \<and> (ip = [] \<or> digitpart ip)) \<or> (digitpart ip \<and> fp = [])
           then Some (digits_value (ip @ fp), length (filter is_digit fp))
           else None)"

definition is_e :: "char \<Rightarrow> bool" where
  "is_e c = (c = CHR ''e'' \<or> c = CHR ''E'')"

definition parse_number :: "string \<Rightarrow> rat option" where
  "parse_number s =
     (let m = takeWhile (\<lambda>c. \<not> is_e c) s;
          rest = dropWhile (\<lambda>c. \<not> is_e c) s
      in case parse_mantissa m of
           None \<Rightarrow> None
         | Some (mant, places) \<Rightarrow>
             (case (if rest = [] then Some 0 else parse_exponent (tl rest)) of
                None \<Rightarrow> None
              | Some ex \<Rightarrow>
                  Some (of_nat mant / 10 ^ places *
                        (if 0 \<le> ex then 10 ^ nat ex else 1 / 10 ^ nat (- ex)))))"

definition py_float :: "string \<Rightarrow> pyfloat option" where
  "py_float s =
     (let (neg, body) = split_sign (strip s); name = lower body
      in if name = ''inf'' \<or> name = ''infinity'' then Some (if neg then NInf else PInf)
         else if name = ''nan'' then Some NaN
         else map_option (\<lambda>v. Fin (if neg then - v else v)) (parse_number body))"


section \<open>HotkeyManager\<close>

text \<open>
  A key as the listener delivers it: a member of pynput's \<^verbatim>\<open>Key\<close> enumeration with its
  name, a \<^verbatim>\<open>KeyCode\<close> with its optional character and virtual key code, or anything
  else. The last component of \<open>KeyCode\<close> and of \<open>UnknownKey\<close> is what \<^verbatim>\<open>str(key)\<close> gives,
  which pynput defines.
\<close>

datatype key =
    Key string
  | KeyCode "string option" "int option" string
  | UnknownKey string

text \<open>\<^verbatim>\<open>if key.char\<close> and \<^verbatim>\<open>elif key.vk\<close> test truth: not None, not empty, not zero.\<close>

fun key_to_name :: "key \<Rightarrow> string" where
  "key_to_name (Key name) = upper name"
| "key_to_name (KeyCode char vk str) =
     (if char \<noteq> None \<and> char \<noteq> Some [] then upper (the char)
      else if vk \<noteq> None \<and> vk \<noteq> Some 0 then ''VK_'' @ str_int (the vk)
      else str)"
| "key_to_name (UnknownKey str) = str"

text \<open>
  The handlers and the recording callback run inside the listener's own functions. The
  manager does not know what they do, so its functions return the calls they make, in
  order, next to the new state.
\<close>

datatype ('h, 'r) call =
    Handler 'h string     \<comment> \<open>\<^verbatim>\<open>self.callbacks[name](event_type)\<close>\<close>
  | Recorded 'r string    \<comment> \<open>\<^verbatim>\<open>self.recording_callback(key_name)\<close>\<close>

record ('h, 'r) hotkey_manager =
  pressed_keys :: "string set"
  callbacks :: "string \<rightharpoonup> 'h"
  recording_callback :: "'r option"
  is_recording :: bool

definition hotkey_manager_init :: "('h, 'r) hotkey_manager" where
  "hotkey_manager_init = \<lparr> pressed_keys = {}, callbacks = Map.empty,
                            recording_callback = None, is_recording = False \<rparr>"

definition register_hotkey ::
  "string \<Rightarrow> 'h \<Rightarrow> ('h, 'r) hotkey_manager \<Rightarrow> ('h, 'r) hotkey_manager" where
  "register_hotkey key_name callback hm =
     hm\<lparr> callbacks := (callbacks hm)(lower key_name \<mapsto> callback) \<rparr>"

definition unregister_hotkey ::
  "string \<Rightarrow> ('h, 'r) hotkey_manager \<Rightarrow> ('h, 'r) hotkey_manager" where
  "unregister_hotkey key_name hm =
     (let key_lower = lower key_name in
      if key_lower \<in> dom (callbacks hm)
      then hm\<lparr> callbacks := (callbacks hm)(key_lower := None) \<rparr>
      else hm)"

definition start_recording ::
  "'r \<Rightarrow> ('h, 'r) hotkey_manager \<Rightarrow> ('h, 'r) hotkey_manager" where
  "start_recording callback hm =
     hm\<lparr> is_recording := True, recording_callback := Some callback \<rparr>"

text \<open>\<^verbatim>\<open>if name in self.callbacks: self.callbacks[name](event_type)\<close>\<close>

definition dispatch ::
  "string \<Rightarrow> string \<Rightarrow> ('h, 'r) hotkey_manager \<Rightarrow> ('h, 'r) call list" where
  "dispatch name event_type hm =
     (case callbacks hm name of None \<Rightarrow> [] | Some h \<Rightarrow> [Handler h event_type])"

definition on_key_press ::
  "key \<Rightarrow> ('h, 'r) hotkey_manager \<Rightarrow> ('h, 'r) call list \<times> ('h, 'r) hotkey_manager" where
  "on_key_press k hm =
     (let key_name = key_to_name k in
      if is_recording hm then
        (case recording_callback hm of
           None \<Rightarrow> []
         | Some cb \<Rightarrow> [Recorded cb key_name],
         hm\<lparr> is_recording := False \<rparr>)
      else
        (dispatch (lower key_name) ''press'' hm,
         hm\<lparr> pressed_keys := insert (lower key_name) (pressed_keys hm) \<rparr>))"

definition on_key_release ::
  "key \<Rightarrow> ('h, 'r) hotkey_manager \<Rightarrow> ('h, 'r) call list \<times> ('h, 'r) hotkey_manager" where
  "on_key_release k hm =
     (let key_name = key_to_name k in
        (dispatch (lower key_name) ''release'' hm,
         hm\<lparr> pressed_keys := pressed_keys hm - {lower key_name} \<rparr>))"

datatype button = left | middle | right

definition on_mouse_click ::
  "button \<Rightarrow> bool \<Rightarrow> ('h, 'r) hotkey_manager \<Rightarrow> ('h, 'r) call list" where
  "on_mouse_click b pressed hm =
     (if b = left then
        (if pressed then dispatch ''m1'' ''press'' hm else dispatch ''m1'' ''release'' hm)
      else [])"

definition is_key_pressed :: "string \<Rightarrow> ('h, 'r) hotkey_manager \<Rightarrow> bool" where
  "is_key_pressed key_name hm = (lower key_name \<in> pressed_keys hm)"

text \<open>A run of key presses, with the calls they make one after the other.\<close>

fun key_presses ::
  "key list \<Rightarrow> ('h, 'r) hotkey_manager \<Rightarrow> ('h, 'r) call list \<times> ('h, 'r) hotkey_manager" where
  "key_presses [] hm = ([], hm)"
| "key_presses (k # ks) hm =
     (let (cs, hm') = on_key_press k hm; (cs', hm'') = key_presses ks hm'
      in (cs @ cs', hm''))"


section \<open>AutoClickerGUI\<close>

datatype click_mode = AUTOCLICK | KEYBIND | NORMAL

text \<open>The three closures that \<^verbatim>\<open>_setup_hotkeys\<close> registers.\<close>

datatype hotkey_handler =
  autoclick_hotkey_handler | keybind_hotkey_handler | normal_mode_handler

text \<open>\<^verbatim>\<open>lambda key: self._set_hotkey(mode, key)\<close>\<close>

datatype recorder = SetHotkey string

text \<open>
  The state of the window that the methods below read or write. Of the settings only
  the two hotkey names change after construction; labels are kept as their text.
\<close>

record gui =
  engine :: engine
  hotkey_manager :: "(hotkey_handler, recorder) hotkey_manager"
  current_mode :: click_mode
  is_active :: bool
  kill_hotkey :: string
  autoclick_hotkey :: string
  autoclick_hotkey_var :: string
  keybind_hotkey_var :: string
  autoclick_start_btn :: string
  keybind_enable_btn :: string
  normal_enable_btn :: string
  status_label :: string

definition update_status :: "bool \<Rightarrow> string option \<Rightarrow> gui \<Rightarrow> gui" where
  "update_status clicking mode_text g =
     (if clicking then g\<lparr> status_label := ''Clicking...'' \<rparr>
      else if mode_text \<noteq> None \<and> mode_text \<noteq> Some [] then g\<lparr> status_label := the mode_text \<rparr>
      else g\<lparr> status_label := ''Inactive'' \<rparr>)"

definition get_float_value :: "string \<Rightarrow> pyfloat \<Rightarrow> pyfloat" where
  "get_float_value v dflt =
     (case py_float v of
        None \<Rightarrow> dflt
      | Some result \<Rightarrow> if le_zero result then dflt else result)"

definition setup_hotkeys :: "gui \<Rightarrow> gui" where
  "setup_hotkeys g =
     g\<lparr> hotkey_manager :=
          register_hotkey ''m1'' normal_mode_handler
            (register_hotkey (autoclick_hotkey g) keybind_hotkey_handler
              (register_hotkey (kill_hotkey g) autoclick_hotkey_handler
                ((hotkey_manager g)\<lparr> callbacks := Map.empty \<rparr>))) \<rparr>"

definition set_hotkey :: "string \<Rightarrow> string \<Rightarrow> gui \<Rightarrow> gui" where
  "set_hotkey mode k g =
     setup_hotkeys
       (if mode = ''autoclick'' then g\<lparr> autoclick_hotkey_var := k, kill_hotkey := k \<rparr>
        else if mode = ''keybind'' then g\<lparr> keybind_hotkey_var := k, autoclick_hotkey := k \<rparr>
        else g)"

definition record_hotkey :: "string \<Rightarrow> gui \<Rightarrow> gui" where
  "record_hotkey mode g =
     (if mode = ''autoclick'' then
        g\<lparr> autoclick_hotkey_var := ''Press key...'',
           hotkey_manager := start_recording (SetHotkey mode) (hotkey_manager g) \<rparr>
      else if mode = ''keybind'' then
        g\<lparr> keybind_hotkey_var := ''Press key...'',
           hotkey_manager := start_recording (SetHotkey mode) (hotkey_manager g) \<rparr>
      else g)"

text \<open>
  \<^verbatim>\<open>_on_tab_change\<close>; \<open>tab_index\<close> is the index of the tab the notebook has selected.
\<close>

definition on_tab_change :: "nat \<Rightarrow> gui \<Rightarrow> gui" where
  "on_tab_change tab_index g =
     update_status False None
       (g\<lparr> engine := stop_clicking (engine g),
           is_active := False,
           autoclick_start_btn := ''Start Autoclicking'',
           keybind_enable_btn := ''Enable Keybind Mode'',
           normal_enable_btn := ''Enable Normal Mode'',
           current_mode := (if tab_index = 0 then AUTOCLICK
                            else if tab_index = 1 then KEYBIND
                            else NORMAL) \<rparr>)"


section \<open>Notions used to state the properties\<close>

fun is_start :: "action \<Rightarrow> bool" where
  "is_start (StartClicking clicks_per_sec delay) = True"
| "is_start a = False"

text \<open>How many clicks worker \<open>i\<close> has sent.\<close>

definition clicks_by :: "nat \<Rightarrow> engine \<Rightarrow> nat" where
  "clicks_by i e = count_list (events e) (MouseClick i)"

text \<open>
  1 when worker \<open>i\<close> stands between the test of the repeat loop and the click, that is
  when it has read the stop event as clear and has not clicked yet; 0 otherwise.
\<close>

definition passed_test :: "nat \<Rightarrow> engine \<Rightarrow> nat" where
  "passed_test i e =
     (if i < length (threads e)
      then (case w_pc (threads e ! i) of DoClick interval \<Rightarrow> 1 | _ \<Rightarrow> 0)
      else 0)"

section \<open>The engine: frame properties\<close>

lemma notify_fields [simp]:
  "is_clicking (notify e) = is_clicking e"
  "stop_event (notify e) = stop_event e"
  "click_count (notify e) = click_count e"
  "threads (notify e) = threads e"
  "click_thread (notify e) = click_thread e"
  "on_click_callback (notify e) = on_click_callback e"
  by (simp_all add: notify_def split: option.splits)

lemma set_pc_fields [simp]:
  "is_clicking (set_pc i p e) = is_clicking e"
  "stop_event (set_pc i p e) = stop_event e"
  "click_count (set_pc i p e) = click_count e"
  "events (set_pc i p e) = events e"
  "click_thread (set_pc i p e) = click_thread e"
  "on_click_callback (set_pc i p e) = on_click_callback e"
  "length (threads (set_pc i p e)) = length (threads e)"
  by (simp_all add: set_pc_def)

lemma emit_fields [simp]:
  "is_clicking (emit ev e) = is_clicking e"
  "stop_event (emit ev e) = stop_event e"
  "click_count (emit ev e) = click_count e"
  "threads (emit ev e) = threads e"
  "events (emit ev e) = events e @ [ev]"
  "click_thread (emit ev e) = click_thread e"
  "on_click_callback (emit ev e) = on_click_callback e"
  by (simp_all add: emit_def)

lemma set_pc_nth:
  "j < length (threads e) \<Longrightarrow>
   w_pc (threads (set_pc j p e) ! i) = (if i = j then p else w_pc (threads e ! i))"
  by (simp add: set_pc_def nth_list_update)

lemma set_pc_cps:
  "w_clicks_per_sec (threads (set_pc j p e) ! i) = w_clicks_per_sec (threads e ! i)"
  by (cases "j < length (threads e)")
     (simp_all add: set_pc_def nth_list_update list_update_beyond)

lemma click_loop_step_stop_event [simp]:
  "stop_event (click_loop_step i e) = stop_event e"
  by (simp add: click_loop_step_def Let_def split: pc.splits)

lemma click_loop_step_length [simp]:
  "length (threads (click_loop_step i e)) = length (threads e)"
  by (simp add: click_loop_step_def Let_def split: pc.splits)

text \<open>
  C10. When \<open>is_clicking\<close> is true, \<^verbatim>\<open>start_clicking\<close> returns at once: the stop event
  is not cleared, no worker is spawned and no field of the engine changes.
\<close>

theorem start_clicking_noop_when_clicking:
  "is_clicking e \<Longrightarrow> start_clicking clicks_per_sec delay e = e"
  by (simp add: start_clicking_def)

theorem start_clicking_noop_witness:
  "is_clicking (start_clicking (Fin 10) (Fin 0) init) \<and>
   start_clicking (Fin 5) (Fin 1) (start_clicking (Fin 10) (Fin 0) init)
     = start_clicking (Fin 10) (Fin 0) init"
proof -
  have running: "is_clicking (start_clicking (Fin 10) (Fin 0) init)"
    by (simp add: start_clicking_def init_def)
  show ?thesis
    using running start_clicking_noop_when_clicking [OF running, of "Fin 5" "Fin 1"]
    by simp
qed

text \<open>
  C8. The click count is the same after \<^verbatim>\<open>start_clicking\<close> and after
  \<^verbatim>\<open>stop_clicking\<close> as before, and \<^verbatim>\<open>set_click_callback\<close> leaves it alone too;
  \<^verbatim>\<open>reset_click_count\<close> makes it zero. A step of a worker keeps it or, at a click,
  adds one to it, so nothing but the reset takes it back to zero.
\<close>

theorem click_count_persists:
  "click_count (start_clicking clicks_per_sec delay e) = click_count e
   \<and> click_count (stop_clicking e) = click_count e
   \<and> click_count (stop_clicking (start_clicking clicks_per_sec delay e)) = click_count e
   \<and> click_count (set_click_callback cb e) = click_count e
   \<and> click_count (reset_click_count e) = 0
   \<and> (click_count (click_loop_step i e) = click_count e
      \<or> click_count (click_loop_step i e) = click_count e + 1)"
  by (simp add: start_clicking_def stop_clicking_def set_click_callback_def
        reset_click_count_def click_loop_step_def Let_def split: pc.splits)

text \<open>
  The writes to the flag: the constructor, \<^verbatim>\<open>start_clicking\<close>, \<^verbatim>\<open>stop_clicking\<close> and
  the last statement of \<^verbatim>\<open>click_loop\<close>.
\<close>

lemma is_clicking_writes:
  "is_clicking init = False
   \<and> is_clicking (start_clicking clicks_per_sec delay e) = True
   \<and> is_clicking (stop_clicking e) = False
   \<and> is_clicking (set_click_callback cb e) = is_clicking e
   \<and> is_clicking (reset_click_count e) = is_clicking e
   \<and> is_clicking (click_loop_step i e)
       = (if i < length (threads e) \<and> w_pc (threads e ! i) = Exit then False
          else is_clicking e)"
  by (simp add: init_def start_clicking_def stop_clicking_def set_click_callback_def
        reset_click_count_def click_loop_step_def Let_def split: pc.splits)

text \<open>
  C6 at a stop followed by a start. Worker 0 reads the stop event as set and leaves its
  loop; the engine is started again, which spawns worker 1, before worker 0 reaches its
  last statement. That statement then takes the flag from true to false although
  nobody called \<^verbatim>\<open>stop_clicking\<close>. Worker 1 is alive with the flag false, so the guard
  of \<^verbatim>\<open>start_clicking\<close> lets the next call spawn a third worker.
\<close>

theorem stale_worker_clears_flag:
  "is_clicking (run [StartClicking (Fin 4) (Fin 0), WorkerStep 0, WorkerStep 0,
                     StopClicking, WorkerStep 0, StartClicking (Fin 4) (Fin 0)] init)
   \<and> \<not> is_clicking (run [StartClicking (Fin 4) (Fin 0), WorkerStep 0, WorkerStep 0,
                     StopClicking, WorkerStep 0, StartClicking (Fin 4) (Fin 0),
                     WorkerStep 0] init)
   \<and> map w_pc (threads (run [StartClicking (Fin 4) (Fin 0), WorkerStep 0, WorkerStep 0,
                     StopClicking, WorkerStep 0, StartClicking (Fin 4) (Fin 0),
                     WorkerStep 0] init)) = [Finished, Entry]
   \<and> length (threads (run [StartClicking (Fin 4) (Fin 0), WorkerStep 0, WorkerStep 0,
                     StopClicking, WorkerStep 0, StartClicking (Fin 4) (Fin 0),
                     WorkerStep 0, StartClicking (Fin 4) (Fin 0)] init)) = 3"
  by (simp add: init_def start_clicking_def stop_clicking_def click_loop_step_def
        set_pc_def interval_of_def)


section \<open>The engine: stopping\<close>

lemma count_clicks_notify [simp]:
  "count_list (events (notify e)) (MouseClick i) = count_list (events e) (MouseClick i)"
  by (simp add: notify_def split: option.splits)

lemma passed_test_notify [simp]: "passed_test i (notify e) = passed_test i e"
  by (simp add: passed_test_def)

text \<open>
  While the stop event is set, a step of any worker keeps the sum of the clicks worker
  \<open>i\<close> has sent and the one it may still owe.
\<close>

lemma stopped_worker_step:
  assumes "stop_event e"
  shows "clicks_by i (click_loop_step j e) + passed_test i (click_loop_step j e)
           = clicks_by i e + passed_test i e"
proof (cases "j < length (threads e)")
  case False
  then show ?thesis by (simp add: click_loop_step_def)
next
  case True
  then show ?thesis
    using assms
    by (cases "w_pc (threads e ! j)")
       (auto simp: click_loop_step_def Let_def clicks_by_def passed_test_def set_pc_nth
             split: pc.splits)
qed

lemma stopped_exec:
  assumes "stop_event e" "\<not> is_start a"
  shows "stop_event (exec a e) \<and>
         clicks_by i (exec a e) + passed_test i (exec a e) = clicks_by i e + passed_test i e"
proof (cases a)
  case (WorkerStep j)
  with stopped_worker_step [OF assms(1)] assms(1) show ?thesis by simp
qed (use assms in \<open>simp_all add: set_click_callback_def reset_click_count_def
       stop_clicking_def clicks_by_def passed_test_def\<close>)

lemma stopped_run:
  assumes "stop_event e" "\<forall>a \<in> set as. \<not> is_start a"
  shows "clicks_by i (run as e) + passed_test i (run as e) = clicks_by i e + passed_test i e"
  using assms
proof (induction as arbitrary: e)
  case Nil
  then show ?case by simp
next
  case (Cons a as)
  from Cons.prems have st: "stop_event (exec a e)"
    and eq: "clicks_by i (exec a e) + passed_test i (exec a e)
               = clicks_by i e + passed_test i e"
    using stopped_exec [of e a i] by simp_all
  from Cons.IH [OF st] Cons.prems(2) eq show ?case by simp
qed

text \<open>
  As long as the engine is not started again, a stop holds: worker \<open>i\<close> sends no click
  after it, except the single one for which it had already passed the test of the
  repeat loop when the stop came.
\<close>

lemma no_click_without_restart:
  assumes "\<forall>a \<in> set as. \<not> is_start a"
  shows "clicks_by i (run as (stop_clicking e)) \<le> clicks_by i e + passed_test i e"
proof -
  have set: "stop_event (stop_clicking e)"
    and same: "clicks_by i (stop_clicking e) = clicks_by i e"
              "passed_test i (stop_clicking e) = passed_test i e"
    by (simp_all add: stop_clicking_def clicks_by_def passed_test_def)
  have "clicks_by i (run as (stop_clicking e)) + passed_test i (run as (stop_clicking e))
          = clicks_by i (stop_clicking e) + passed_test i (stop_clicking e)"
    using set assms by (rule stopped_run)
  with same show ?thesis by simp
qed

text \<open>
  C1 at a stop followed by a start, as a key released and pressed again gives them.
  Worker 0 is started with a delay of one second and stands in the delay loop, with no
  click sent. \<^verbatim>\<open>stop_clicking\<close> sets the stop event; the worker polls, reads the event
  as set and leaves the delay loop. \<^verbatim>\<open>start_clicking\<close> then clears the event, which
  the old worker shares with the new one. The old worker goes on to the test of the
  repeat loop, reads the event as clear and clicks: one click after it had observed the
  stop.
\<close>

theorem stopped_worker_clicks_after_restart:
  "stop_event (run [StartClicking (Fin 4) (Fin 1), WorkerStep 0, StopClicking] init)
   \<and> w_pc (threads (run [StartClicking (Fin 4) (Fin 1), WorkerStep 0, StopClicking] init) ! 0)
       = DelayTest 0
   \<and> w_pc (threads (run [StartClicking (Fin 4) (Fin 1), WorkerStep 0, StopClicking,
                           WorkerStep 0] init) ! 0)
       = SetInterval
   \<and> clicks_by 0 (run [StartClicking (Fin 4) (Fin 1), WorkerStep 0, StopClicking,
                        WorkerStep 0] init) = 0
   \<and> clicks_by 0 (run [StartClicking (Fin 4) (Fin 1), WorkerStep 0, StopClicking,
                        WorkerStep 0, StartClicking (Fin 4) (Fin 1),
                        WorkerStep 0, WorkerStep 0, WorkerStep 0] init) = 1"
  by (simp add: init_def start_clicking_def stop_clicking_def click_loop_step_def
        set_pc_def emit_def notify_def interval_of_def clicks_by_def)


section \<open>The engine: the period of the clicks\<close>



section \<open>The hotkey table\<close>

text \<open>
  Outside recording, a run of key presses makes the calls that the table holds for
  each key in turn, and leaves the table and the recording flag as they are.
\<close>

lemma key_presses_not_recording:
  "\<not> is_recording hm \<Longrightarrow>
   fst (key_presses ks hm)
     = concat (map (\<lambda>k. dispatch (lower (key_to_name k)) ''press'' hm) ks)
   \<and> \<not> is_recording (snd (key_presses ks hm))
   \<and> callbacks (snd (key_presses ks hm)) = callbacks hm"
proof (induction ks arbitrary: hm)
  case Nil
  then show ?case by simp
next
  case (Cons k ks)
  let ?hm' = "hm\<lparr> pressed_keys := insert (lower (key_to_name k)) (pressed_keys hm) \<rparr>"
  have step: "on_key_press k hm = (dispatch (lower (key_to_name k)) ''press'' hm, ?hm')"
    using Cons.prems by (simp add: on_key_press_def Let_def)
  have same: "dispatch n t ?hm' = dispatch n t hm" for n t
    by (simp add: dispatch_def)
  have "\<not> is_recording ?hm'" using Cons.prems by simp
  from Cons.IH [OF this] step same show ?case
    by (simp add: split_beta)
qed

text \<open>
  C7. After \<^verbatim>\<open>start_recording(cb)\<close> the first key press calls \<open>cb\<close> with the name of
  that key and nothing else: no handler of the table is called and the key is not even
  noted as pressed; the only change to the manager is that the recording flag is clear
  again. Every key press after it gets the calls of the table, as if no recording had
  taken place, and the flag stays clear.
\<close>

theorem recording_is_one_shot:
  "on_key_press k (start_recording cb hm)
     = ([Recorded cb (key_to_name k)],
        hm\<lparr> is_recording := False, recording_callback := Some cb \<rparr>)
   \<and> fst (key_presses (k # ks) (start_recording cb hm))
     = Recorded cb (key_to_name k)
       # concat (map (\<lambda>k'. dispatch (lower (key_to_name k')) ''press'' hm) ks)
   \<and> \<not> is_recording (snd (key_presses (k # ks) (start_recording cb hm)))"
proof -
  let ?hm1 = "hm\<lparr> is_recording := False, recording_callback := Some cb \<rparr>"
  have first: "on_key_press k (start_recording cb hm) = ([Recorded cb (key_to_name k)], ?hm1)"
    by (simp add: on_key_press_def start_recording_def)
  have same: "dispatch n t ?hm1 = dispatch n t hm" for n t
    by (simp add: dispatch_def)
  have "\<not> is_recording ?hm1" by simp
  from key_presses_not_recording [OF this, of ks] first same show ?thesis
    by (simp add: split_beta)
qed

text \<open>
  C3, as the code has it. After \<open>c1\<close> and then \<open>c2\<close> were registered for a key name,
  the table holds \<open>c2\<close> for it. The release of a key of that name, in any
  capitalisation, calls \<open>c2\<close> and nothing else. So does its press, unless the manager
  is recording: then the press goes to the recording callback alone. The handler \<open>c1\<close>
  is called in neither case.
\<close>

theorem rebinding_replaces_handler:
  assumes "lower (key_to_name k) = lower key_name"
  shows "callbacks (register_hotkey key_name c2 (register_hotkey key_name c1 hm))
           (lower key_name) = Some c2
       \<and> fst (on_key_release k (register_hotkey key_name c2 (register_hotkey key_name c1 hm)))
           = [Handler c2 ''release'']
       \<and> fst (on_key_press k (register_hotkey key_name c2 (register_hotkey key_name c1 hm)))
           = (if is_recording hm
              then (case recording_callback hm of
                      None \<Rightarrow> []
                    | Some cb \<Rightarrow> [Recorded cb (key_to_name k)])
              else [Handler c2 ''press''])"
  using assms
  by (simp add: register_hotkey_def on_key_release_def on_key_press_def dispatch_def)

theorem rebinding_replaces_handler_witness:
  "lower (key_to_name (Key ''f6'')) = lower ''F6''
   \<and> fst (on_key_press (Key ''f6'')
        (register_hotkey ''F6'' ''new'' (register_hotkey ''F6'' ''old''
           (hotkey_manager_init :: (string, string) hotkey_manager))))
       = [Handler ''new'' ''press'']"
proof -
  have name: "lower (key_to_name (Key ''f6'')) = lower ''F6''"
    by (simp add: lower_def upper_def lower_char_def upper_char_def)
  have idle: "\<not> is_recording (hotkey_manager_init :: (string, string) hotkey_manager)"
    by (simp add: hotkey_manager_init_def)
  show ?thesis
    using name idle
      rebinding_replaces_handler [OF name, of "''new''" "''old''"
        "hotkey_manager_init :: (string, string) hotkey_manager"]
    by simp
qed

text \<open>
  C3 as stated fails while the manager records: the press of the rebound key calls the
  recording callback, and the new handler is not called.
\<close>

theorem rebinding_press_while_recording_counterexample:
  "fst (on_key_press (Key ''f6'')
         (start_recording ''cb''
           (register_hotkey ''F6'' ''new'' (register_hotkey ''F6'' ''old''
             (hotkey_manager_init :: (string, string) hotkey_manager)))))
     = [Recorded ''cb'' ''F6'']"
  by (simp add: on_key_press_def start_recording_def register_hotkey_def
        hotkey_manager_init_def upper_def upper_char_def)

text \<open>
  C9, as the code has it. \<^verbatim>\<open>register_hotkey\<close> stores the handler under the lowercased
  name and changes no other entry, and press and release look the lowercased name of
  the key up. So a handler registered under any capitalisation of a name is the one call
  made at the release of any key whose name is the same up to case, and at its press
  too, unless the manager is recording: then the press goes to the recording callback
  alone.
\<close>

theorem normalized_lookup:
  assumes "lower (key_to_name k) = lower key_name"
  shows "callbacks (register_hotkey key_name c hm) = (callbacks hm)(lower key_name \<mapsto> c)
       \<and> callbacks (register_hotkey key_name c hm) (lower (key_to_name k)) = Some c
       \<and> fst (on_key_release k (register_hotkey key_name c hm)) = [Handler c ''release'']
       \<and> fst (on_key_press k (register_hotkey key_name c hm))
           = (if is_recording hm
              then (case recording_callback hm of
                      None \<Rightarrow> []
                    | Some cb \<Rightarrow> [Recorded cb (key_to_name k)])
              else [Handler c ''press''])"
  using assms
  by (simp add: register_hotkey_def on_key_release_def on_key_press_def dispatch_def)

text \<open>
  The handler is registered as \<open>Shift\<close>; the key arrives with the name \<open>SHIFT\<close>; the
  table holds the handler under \<open>shift\<close>, and both the release and the press find it.
\<close>

theorem normalized_lookup_witness:
  "key_to_name (Key ''shift'') = ''SHIFT''
   \<and> lower ''SHIFT'' = ''shift''
   \<and> lower ''Shift'' = ''shift''
   \<and> callbacks (register_hotkey ''Shift'' ''hold''
        (hotkey_manager_init :: (string, string) hotkey_manager)) ''shift'' = Some ''hold''
   \<and> callbacks (register_hotkey ''Shift'' ''hold''
        (hotkey_manager_init :: (string, string) hotkey_manager)) ''Shift'' = None
   \<and> fst (on_key_release (Key ''shift'')
        (register_hotkey ''Shift'' ''hold''
           (hotkey_manager_init :: (string, string) hotkey_manager)))
       = [Handler ''hold'' ''release'']
   \<and> fst (on_key_press (Key ''shift'')
        (register_hotkey ''Shift'' ''hold''
           (hotkey_manager_init :: (string, string) hotkey_manager)))
       = [Handler ''hold'' ''press'']"
proof -
  have name: "key_to_name (Key ''shift'') = ''SHIFT''"
    by (simp add: upper_def upper_char_def)
  have low1: "lower ''SHIFT'' = ''shift''"
    by (simp add: lower_def lower_char_def)
  have low2: "lower ''Shift'' = ''shift''"
    by (simp add: lower_def lower_char_def)
  have same: "lower (key_to_name (Key ''shift'')) = lower ''Shift''"
    by (simp only: name low1 low2)
  have idle: "\<not> is_recording (hotkey_manager_init :: (string, string) hotkey_manager)"
    and empty: "callbacks (hotkey_manager_init :: (string, string) hotkey_manager) ''Shift''
                  = None"
    by (simp_all add: hotkey_manager_init_def)
  show ?thesis
    using name low1 low2 idle empty
      normalized_lookup [OF same, of "''hold''"
        "hotkey_manager_init :: (string, string) hotkey_manager"]
    by simp
qed

text \<open>
  C9 as stated fails while the manager records: a handler is registered as \<open>f7\<close>, the
  key \<open>F7\<close> is pressed, and the handler is not among the calls.
\<close>

theorem normalized_press_while_recording_counterexample:
  "Handler ''hold'' ''press'' \<notin> set (fst (on_key_press (Key ''f7'')
         (start_recording ''cb''
           (register_hotkey ''f7'' ''hold''
             (hotkey_manager_init :: (string, string) hotkey_manager)))))"
  by (simp add: on_key_press_def start_recording_def register_hotkey_def
        hotkey_manager_init_def)

text \<open>The mouse listener looks the fixed name \<open>m1\<close> up, whatever the manager records.\<close>

lemma mouse_lookup:
  "lower key_name = ''m1'' \<Longrightarrow>
   on_mouse_click left pressed (register_hotkey key_name c hm)
     = [Handler c (if pressed then ''press'' else ''release'')]"
  by (simp add: on_mouse_click_def register_hotkey_def dispatch_def)

text \<open>
  \<^verbatim>\<open>_setup_hotkeys\<close> builds the table anew; a later registration wins where two of the
  three names agree up to case.
\<close>

lemma setup_hotkeys_callbacks:
  "callbacks (hotkey_manager (setup_hotkeys g)) =
     [lower (kill_hotkey g) \<mapsto> autoclick_hotkey_handler,
      lower (autoclick_hotkey g) \<mapsto> keybind_hotkey_handler,
      lower ''m1'' \<mapsto> normal_mode_handler]"
  by (simp add: setup_hotkeys_def register_hotkey_def)


section \<open>The window\<close>

text \<open>
  C4. Whatever the state before, \<^verbatim>\<open>_on_tab_change\<close> begins by stopping the engine:
  afterwards the engine is the one \<^verbatim>\<open>stop_clicking\<close> gives, so the stop event is set and
  \<open>is_clicking\<close> is false, and \<open>is_active\<close> is false.
\<close>

theorem tab_change_stops_clicking:
  "engine (on_tab_change tab_index g) = stop_clicking (engine g)
   \<and> stop_event (engine (on_tab_change tab_index g))
   \<and> \<not> is_clicking (engine (on_tab_change tab_index g))
   \<and> \<not> is_active (on_tab_change tab_index g)"
  by (simp add: on_tab_change_def update_status_def stop_clicking_def)

text \<open>
  What \<^verbatim>\<open>_get_float_value\<close> returns: the default where \<^verbatim>\<open>float\<close> raises and where the
  value is at most zero, the value where it is positive, and NaN where it is NaN.
\<close>

lemma get_float_value_cases:
  "get_float_value v d =
     (case py_float v of
        None \<Rightarrow> d
      | Some x \<Rightarrow> if gt_zero x then x else if x = NaN then NaN else d)"
proof (cases "py_float v")
  case None
  then show ?thesis by (simp add: get_float_value_def)
next
  case (Some x)
  then show ?thesis by (cases x) (auto simp: get_float_value_def)
qed

text \<open>
  C5 at the input \<^verbatim>\<open>"nan"\<close>. \<^verbatim>\<open>float\<close> accepts it and gives NaN, which is not positive;
  but \<^verbatim>\<open>result <= 0\<close> is false on NaN, so \<^verbatim>\<open>_get_float_value\<close> returns NaN and not the
  default.
\<close>

theorem get_float_value_nan:
  "py_float ''nan'' = Some NaN
   \<and> \<not> gt_zero NaN
   \<and> get_float_value ''nan'' (Fin 10) = NaN"
  by (simp add: get_float_value_def py_float_def split_sign_def strip_def is_space_def
        lower_def lower_char_def)

end
